theory Spec2Isabelle
  imports Main "HOL-Library.Word" "HOL-Library.Monad_Syntax"
begin

unbundle bit_operations_syntax

section \<open>Integer types of cytypes.h\<close>

type_synonym uint8 = "8 word"
type_synonym uint16 = "16 word"
type_synonym uint32 = "32 word"

text \<open>
  C computes on \<open>int\<close>: an operand of type \<open>uint8\<close> or \<open>uint16\<close> is promoted to a
  32-bit \<open>int\<close> before \<open>&\<close>, \<open>|\<close>, \<open>~\<close>, \<open><<\<close> and \<open>>>\<close> (the sources are generated
  for PSoC 5, an ARM core), and an assignment or a cast converts the result back
  by keeping its low bits. The operations are bitwise, and the values the code
  shifts (a byte by a pin's shift or by 8, a 16-bit payload to the right) stay
  non-negative, so a 32-bit word computes them as C does.
\<close>

definition promote :: "'a::len word \<Rightarrow> uint32" where
  "promote x = ucast x"

definition to_uint8 :: "uint32 \<Rightarrow> uint8" where
  "to_uint8 x = ucast x"

definition to_uint16 :: "uint32 \<Rightarrow> uint16" where
  "to_uint16 x = ucast x"

section \<open>The Pins component: GPIO_12_7.c\<close>

text \<open>
  Every Pins component (GPIO_12_7, GPIO_4_5, GPIO_6_5, Out_17, ...) is generated from
  one template; the components differ in the constants \<open>X__PORT\<close>, \<open>X__MASK\<close>,
  \<open>X__SHIFT\<close> and in the register addresses \<open>X__DR\<close>, \<open>X__PS\<close>, \<open>X__INTSTAT\<close>,
  all of cyfitter.h, which is not among the sources. A component is therefore a
  record of its constants, and its registers are those of its physical port
  \<open>PORT\<close>: the data register, the pin state register and the interrupt status
  register of that port, each one byte wide and shared by every component placed
  on the port.

  The functions exist only under the guard of GPIO_12_7.c, line 21
  (not for P15[7:6] on PSoC 5A), and \<open>ClearInterrupt\<close> only when
  \<open>X_INTSTAT\<close> is defined (line 120); the definitions below are the function
  bodies.
\<close>

record pins =
  PORT :: nat
  MASK :: uint8
  SHIFT :: nat

record port_registers =
  DR :: uint8
  PS :: uint8
  INTSTAT :: uint8

type_synonym registers = "nat \<Rightarrow> port_registers"

text \<open>
  \<^verbatim>\<open>uint8 staticBits = (GPIO_12_7_DR & (uint8)(~GPIO_12_7_MASK));\<close>
  \<^verbatim>\<open>GPIO_12_7_DR = staticBits | ((uint8)(value << GPIO_12_7_SHIFT) & GPIO_12_7_MASK);\<close>
\<close>

definition GPIO_Write :: "pins \<Rightarrow> uint8 \<Rightarrow> registers \<Rightarrow> registers" where
  "GPIO_Write p val regs =
     (let r = regs (PORT p);
          staticBits = to_uint8 (promote (DR r) AND promote (to_uint8 (NOT (promote (MASK p)))))
      in regs (PORT p := r\<lparr>DR :=
           to_uint8 (promote staticBits OR
             (promote (to_uint8 (push_bit (SHIFT p) (promote val))) AND promote (MASK p)))\<rparr>))"

text \<open>
  \<^verbatim>\<open>return (GPIO_12_7_PS & GPIO_12_7_MASK) >> GPIO_12_7_SHIFT;\<close>

  A read returns the value together with the registers as the call leaves them.
  The registers are the state that the calls see: the pins drive the pin state
  register from outside, and between two calls it holds what the state says.
\<close>

definition GPIO_Read :: "pins \<Rightarrow> registers \<Rightarrow> uint8 \<times> registers" where
  "GPIO_Read p regs =
     (to_uint8 (drop_bit (SHIFT p) (promote (PS (regs (PORT p))) AND promote (MASK p))), regs)"

text \<open>\<^verbatim>\<open>return (GPIO_12_7_DR & GPIO_12_7_MASK) >> GPIO_12_7_SHIFT;\<close>\<close>

definition GPIO_ReadDataReg :: "pins \<Rightarrow> registers \<Rightarrow> uint8 \<times> registers" where
  "GPIO_ReadDataReg p regs =
     (to_uint8 (drop_bit (SHIFT p) (promote (DR (regs (PORT p))) AND promote (MASK p))), regs)"

text \<open>
  \<^verbatim>\<open>return (GPIO_12_7_INTSTAT & GPIO_12_7_MASK) >> GPIO_12_7_SHIFT;\<close>

  The function's one access to the hardware is the read of the port's interrupt
  status register; its summary says that it ``clears any active interrupts
  attached to port and returns the value of the interrupt status register''.
\<close>

text \<open>
  Modelled from the spec: the behaviour of the interrupt status register under a
  read is hardware, not code of the sources. The specification says that
  clear_interrupt ``reads-and-clears the interrupt status bits'' and returns the
  value ``captured before clearing''; the read is the only access the function
  makes and does not involve the mask, so the read clears the register.
\<close>

definition read_INTSTAT :: "nat \<Rightarrow> registers \<Rightarrow> uint8 \<times> registers" where
  "read_INTSTAT n regs = (INTSTAT (regs n), regs (n := (regs n)\<lparr>INTSTAT := 0\<rparr>))"

definition GPIO_ClearInterrupt :: "pins \<Rightarrow> registers \<Rightarrow> uint8 \<times> registers" where
  "GPIO_ClearInterrupt p regs =
     (let (status, regs') = read_INTSTAT (PORT p) regs
      in (to_uint8 (drop_bit (SHIFT p) (promote status AND promote (MASK p))), regs'))"

subsection \<open>The port register model of the specification\<close>

text \<open>
  The specification's words, to compare the code with:
  \<open>pack\<close> computes \<open>(current_register_value & ~mask) | ((logical_value << shift) & mask)\<close>,
  \<open>unpack\<close> computes \<open>(register_value & mask) >> shift\<close>, and a mask is a contiguous
  run of \<open>width\<close> ones positioned at \<open>shift\<close> within the 8-bit register.
\<close>

definition pack :: "uint8 \<Rightarrow> nat \<Rightarrow> uint8 \<Rightarrow> uint8 \<Rightarrow> uint8" where
  "pack m s r v = (r AND NOT m) OR (push_bit s v AND m)"

definition unpack :: "uint8 \<Rightarrow> nat \<Rightarrow> uint8 \<Rightarrow> uint8" where
  "unpack m s r = drop_bit s (r AND m)"

definition contiguous_run :: "uint8 \<Rightarrow> nat \<Rightarrow> nat \<Rightarrow> bool" where
  "contiguous_run m s w \<longleftrightarrow> s + w \<le> 8 \<and> m = push_bit s (mask w)"

section \<open>The command frame: Python.c\<close>

text \<open>
  Modelled from the spec: \<open>vessel_type\<close> is declared in Python.h, which is not
  among the sources. The fields are the ones Python.c uses; the specification
  gives an 8-bit address, an 8-bit command and a 16-bit data payload (the code
  reads it into a \<open>uint16\<close>), a pin index in 0..7 and a port index in 0..15.
\<close>

record vessel_type =
  addr :: uint8
  cmd :: uint8
  dat :: uint16
  pin :: uint8
  port :: uint8

text \<open>
  The case labels of \<open>Python_parser\<close> are macros of Python.h, and the cases of
  lines 30 to 132 are compiled only for the peripherals whose header is part of
  the build. A build is given by the labels of the peripheral cases that are
  compiled in, in the order of the source, and by the three labels that are
  always present. C requires the labels of one \<open>switch\<close> to be distinct.
\<close>

record build =
  peripheral_cases :: "uint8 list"
  GPIO_REGISTER :: uint8
  CHECK_BUILD :: uint8
  RESET_ADDRESS :: uint8

definition case_labels :: "build \<Rightarrow> uint8 list" where
  "case_labels b = peripheral_cases b @ [GPIO_REGISTER b, CHECK_BUILD b, RESET_ADDRESS b]"

text \<open>
  Python.c, lines 22 to 152. Every peripheral case is \<open>break\<close>; the switch has no
  \<open>default\<close>; the inner switch on \<open>cmd\<close> has the cases 0x01 and 0x03 only.
\<close>

definition Python_parser :: "build \<Rightarrow> vessel_type \<Rightarrow> vessel_type" where
  "Python_parser b vessel =
     (let c = cmd vessel;
          a = addr vessel
      in if a \<in> set (peripheral_cases b) then vessel
         else if a = GPIO_REGISTER b then
           (let temp_data = dat vessel;
                vessel = vessel\<lparr>pin := to_uint8 (drop_bit 1 (promote temp_data) AND 0x0007)\<rparr>;
                vessel = vessel\<lparr>port := to_uint8 (drop_bit 4 (promote temp_data) AND 0x000F)\<rparr>
            in if c = 0x01 then vessel\<lparr>dat := to_uint16 (promote temp_data AND 0x0001)\<rparr>
               else if c = 0x03 then
                 vessel\<lparr>dat := to_uint16 (drop_bit 8 (promote temp_data) AND 0x000F)\<rparr>
               else vessel)
         else if a = CHECK_BUILD b then vessel
         else if a = RESET_ADDRESS b then vessel
         else vessel)"

subsection \<open>The bus components\<close>

text \<open>
  Modelled from the spec: the SPI slave and I2C slave components (\<open>SPIS_1_*\<close>,
  \<open>I2C_1_*\<close>) are generated code that is not among the sources. The
  specification describes them as the Transport Adapter: a receive primitive
  that blocks until a byte is available and a send primitive, behind busy-wait
  polling loops with no timeout. A busy-wait loop polls the component until the
  answer lets it leave; the component is given by the answers that its successive
  polls get. When no remaining poll gets such an answer the loop spins for ever,
  and the call has no result.
\<close>

fun wait_until :: "('a \<Rightarrow> bool) \<Rightarrow> 'a list \<Rightarrow> ('a \<times> 'a list) option" where
  "wait_until ready [] = None"
| "wait_until ready (x # xs) = (if ready x then Some (x, xs) else wait_until ready xs)"

text \<open>
  Modelled from the spec: the SPI slave. \<open>RxPolls\<close>: what each poll of the receive buffer finds, \<open>None\<close>
  when \<open>SPIS_1_GetRxBufferSize()\<close> is 0, \<open>Some b\<close> when it is not and
  \<open>SPIS_1_ReadRxData()\<close> then reads \<open>b\<close>. \<open>TxBuffer\<close>: the bytes handed to the
  transmitter since it was last cleared, in the order in which they are sent.
  \<open>TxPolls\<close>: for each poll of \<open>SPIS_1_ReadTxStatus()\<close>, whether the bit
  \<open>SPIS_1_STS_SPI_DONE\<close> is set.
\<close>

record SPIS_1 =
  RxPolls :: "uint8 option list"
  TxBuffer :: "uint8 list"
  TxPolls :: "bool list"

text \<open>
  Modelled from the spec: the blocking receive of one byte, as Python.c writes it
  four times.
  \<^verbatim>\<open>while(!SPIS_1_GetRxBufferSize()){}\<close>
  \<^verbatim>\<open>    addr = SPIS_1_ReadRxData();\<close>
  The calls that clear the buffers empty the transmit side; what the polls of the
  receive side find after them is part of \<open>RxPolls\<close>. \<open>SPIS_1_WriteTxDataZero\<close>
  and \<open>SPIS_1_PutArray\<close> queue their bytes behind the ones already queued.
\<close>

definition SPIS_1_receive :: "SPIS_1 \<Rightarrow> (uint8 \<times> SPIS_1) option" where
  "SPIS_1_receive s =
     (case wait_until (\<lambda>x. x \<noteq> None) (RxPolls s) of
        Some (Some b, rest) \<Rightarrow> Some (b, s\<lparr>RxPolls := rest\<rparr>)
      | _ \<Rightarrow> None)"

definition SPIS_1_ClearTxBuffer :: "SPIS_1 \<Rightarrow> SPIS_1" where
  "SPIS_1_ClearTxBuffer s = s\<lparr>TxBuffer := []\<rparr>"

definition SPIS_1_ClearFIFO :: "SPIS_1 \<Rightarrow> SPIS_1" where
  "SPIS_1_ClearFIFO s = s\<lparr>TxBuffer := []\<rparr>"

definition SPIS_1_ClearRxBuffer :: "SPIS_1 \<Rightarrow> SPIS_1" where
  "SPIS_1_ClearRxBuffer s = s"

definition SPIS_1_WriteTxDataZero :: "uint8 \<Rightarrow> SPIS_1 \<Rightarrow> SPIS_1" where
  "SPIS_1_WriteTxDataZero b s = s\<lparr>TxBuffer := TxBuffer s @ [b]\<rparr>"

definition SPIS_1_PutArray :: "uint8 list \<Rightarrow> nat \<Rightarrow> SPIS_1 \<Rightarrow> SPIS_1" where
  "SPIS_1_PutArray buffer byteCount s = s\<lparr>TxBuffer := TxBuffer s @ take byteCount buffer\<rparr>"

text \<open>
  Modelled from the spec: the I2C slave. A poll finds the number of bytes the master has written
  (\<open>I2C_1_SlaveGetWriteBufSize()\<close>) and read (\<open>I2C_1_SlaveGetReadBufSize()\<close>),
  the bits \<open>I2C_1_SSTAT_WR_CMPLT\<close> and \<open>I2C_1_SSTAT_RD_CMPLT\<close> of
  \<open>I2C_1_SlaveStatus()\<close>, and the write buffer \<open>WR_buf\<close> as the master has
  filled it. \<open>RD_buf\<close> is the buffer the master reads from. Both buffers are
  arrays of \<open>I2C_BUFFER_SIZE\<close> bytes (Python.h), at least the four that the
  code indexes.
\<close>

record I2C_poll =
  WriteBufSize :: nat
  WR_CMPLT :: bool
  WR_buf :: "nat \<Rightarrow> uint8"
  ReadBufSize :: nat
  RD_CMPLT :: bool

record I2C_1 =
  RD_buf :: "nat \<Rightarrow> uint8"
  I2C_polls :: "I2C_poll list"

text \<open>
  Modelled from the spec: the four calls that reset the I2C slave's buffer
  indexes and status bits act on the component only; what the polls after them
  find is part of \<open>I2C_polls\<close>.
\<close>

definition I2C_1_SlaveClearWriteStatus :: "I2C_1 \<Rightarrow> I2C_1" where
  "I2C_1_SlaveClearWriteStatus i = i"

definition I2C_1_SlaveClearWriteBuf :: "I2C_1 \<Rightarrow> I2C_1" where
  "I2C_1_SlaveClearWriteBuf i = i"

definition I2C_1_SlaveClearReadBuf :: "I2C_1 \<Rightarrow> I2C_1" where
  "I2C_1_SlaveClearReadBuf i = i"

definition I2C_1_SlaveClearReadStatus :: "I2C_1 \<Rightarrow> I2C_1" where
  "I2C_1_SlaveClearReadStatus i = i"

text \<open>
  Python.h defines one of \<open>USE_SPI\<close> and \<open>USE_I2C\<close>: the bus of the build, with the
  state of its component.
\<close>

datatype transport = USE_SPI SPIS_1 | USE_I2C I2C_1

subsection \<open>Python_getData and Python_sendData\<close>

text \<open>The operator \<open>||\<close> of C: 1 when an operand is not zero, 0 otherwise.\<close>

definition logical_or :: "uint32 \<Rightarrow> uint32 \<Rightarrow> uint32" where
  "logical_or x y = (if x \<noteq> 0 \<or> y \<noteq> 0 then 1 else 0)"

text \<open>
  Python.c, lines 213 to 215:
  \<^verbatim>\<open>vessel->addr = addr;\<close>
  \<^verbatim>\<open>vessel->cmd = cmd;\<close>
  \<^verbatim>\<open>vessel->dat = (dat_hi<<8)||dat_lo;\<close>
\<close>

definition store_frame :: "vessel_type \<Rightarrow> uint8 \<Rightarrow> uint8 \<Rightarrow> uint8 \<Rightarrow> uint8 \<Rightarrow> vessel_type" where
  "store_frame vessel a c dat_lo dat_hi =
     vessel\<lparr>addr := a, cmd := c,
       dat := to_uint16 (logical_or (push_bit 8 (promote dat_hi)) (promote dat_lo))\<rparr>"

text \<open>Python.c, lines 178 to 216; the result is \<open>None\<close> when a wait loop never ends.\<close>

fun Python_getData :: "vessel_type \<Rightarrow> transport \<Rightarrow> (vessel_type \<times> transport) option" where
  "Python_getData vessel (USE_SPI s) = do {
     (a, s) \<leftarrow> SPIS_1_receive s;
     (c, s) \<leftarrow> SPIS_1_receive s;
     (dat_lo, s) \<leftarrow> SPIS_1_receive s;
     (dat_hi, s) \<leftarrow> SPIS_1_receive s;
     Some (store_frame vessel a c dat_lo dat_hi, USE_SPI s)
   }"
| "Python_getData vessel (USE_I2C i) = do {
     (_, ps) \<leftarrow> wait_until (\<lambda>p. WriteBufSize p \<noteq> 0) (I2C_polls i);
     (p, ps) \<leftarrow> wait_until WR_CMPLT ps;
     let byteCount = WriteBufSize p;
     let a = WR_buf p 0;
     let c = WR_buf p 1;
     let dat_lo = WR_buf p 2;
     let dat_hi = WR_buf p 3;
     let i = I2C_1_SlaveClearWriteStatus (i\<lparr>I2C_polls := ps\<rparr>);
     let i = I2C_1_SlaveClearWriteBuf i;
     Some (store_frame vessel a c dat_lo dat_hi, USE_I2C i)
   }"

text \<open>
  Python.c, lines 226 to 259. \<open>dat\<close> and the four constants are 32 bits wide, so
  nothing is promoted; each result is converted to \<open>uint8\<close>.
\<close>

definition out_hi :: "uint32 \<Rightarrow> uint8" where
  "out_hi d = to_uint8 (drop_bit 24 (d AND 0xFF000000))"

definition out_mid_hi :: "uint32 \<Rightarrow> uint8" where
  "out_mid_hi d = to_uint8 (drop_bit 16 (d AND 0x00FF0000))"

definition out_mid_lo :: "uint32 \<Rightarrow> uint8" where
  "out_mid_lo d = to_uint8 (drop_bit 8 (d AND 0x0000FF00))"

definition out_lo :: "uint32 \<Rightarrow> uint8" where
  "out_lo d = to_uint8 (d AND 0x000000FF)"

fun Python_sendData :: "uint32 \<Rightarrow> transport \<Rightarrow> transport option" where
  "Python_sendData d (USE_SPI s) =
     (let s = SPIS_1_ClearTxBuffer s;
          s = SPIS_1_ClearFIFO s;
          s = SPIS_1_ClearRxBuffer s;
          SPI_buffer = [out_mid_lo d, out_mid_hi d, out_hi d];
          s = SPIS_1_WriteTxDataZero (out_lo d) s;
          s = SPIS_1_PutArray SPI_buffer 3 s
      in do {
        (_, ps) \<leftarrow> wait_until (\<lambda>spi_done. spi_done) (TxPolls s);
        Some (USE_SPI (s\<lparr>TxPolls := ps\<rparr>))
      })"
| "Python_sendData d (USE_I2C i) = do {
     (_, ps) \<leftarrow> wait_until (\<lambda>p. ReadBufSize p = 0) (I2C_polls i);
     let i = i\<lparr>RD_buf := (RD_buf i)(0 := out_lo d)\<rparr>;
     let i = i\<lparr>RD_buf := (RD_buf i)(1 := out_mid_lo d)\<rparr>;
     let i = i\<lparr>RD_buf := (RD_buf i)(2 := out_mid_hi d)\<rparr>;
     let i = i\<lparr>RD_buf := (RD_buf i)(3 := out_hi d)\<rparr>;
     (_, ps) \<leftarrow> wait_until RD_CMPLT ps;
     let i = I2C_1_SlaveClearReadBuf (i\<lparr>I2C_polls := ps\<rparr>);
     let i = I2C_1_SlaveClearReadStatus i;
     Some (USE_I2C i)
   }"

text \<open>
  The bytes a transport holds for the master, in the order in which they go out:
  the transmit buffer of the SPI slave, the first four bytes of the read buffer of
  the I2C slave.
\<close>

fun bytes_to_send :: "transport \<Rightarrow> uint8 list" where
  "bytes_to_send (USE_SPI s) = TxBuffer s"
| "bytes_to_send (USE_I2C i) = map (RD_buf i) [0, 1, 2, 3]"

section \<open>Lemmas on the promoted arithmetic\<close>

lemma static_bits_8: "to_uint8 (promote (d :: uint8) AND promote (to_uint8 (NOT (promote (m :: uint8))))) = d AND NOT m"
  unfolding to_uint8_def promote_def
  by (rule bit_word_eqI) (auto simp add: bit_simps)

lemma shifted_value_8: "to_uint8 (push_bit s (promote (v :: uint8))) = push_bit s v"
  unfolding to_uint8_def promote_def
  by (rule bit_word_eqI) (auto simp add: bit_simps)

lemma or_and_8: "to_uint8 (promote (a :: uint8) OR (promote (b :: uint8) AND promote (m :: uint8))) = a OR (b AND m)"
  unfolding to_uint8_def promote_def
  by (rule bit_word_eqI) (auto simp add: bit_simps)

lemma masked_shift_8: "to_uint8 (drop_bit s (promote (r :: uint8) AND promote (m :: uint8))) = drop_bit s (r AND m)"
  unfolding to_uint8_def promote_def
  by (rule bit_word_eqI) (auto simp add: bit_simps dest: bit_imp_le_length)

lemma GPIO_Write_pack:
  "GPIO_Write p v regs = regs (PORT p := (regs (PORT p))\<lparr>DR := pack (MASK p) (SHIFT p) (DR (regs (PORT p))) v\<rparr>)"
  by (simp add: GPIO_Write_def Let_def pack_def static_bits_8 shifted_value_8 or_and_8)

lemma GPIO_Read_unpack: "GPIO_Read p regs = (unpack (MASK p) (SHIFT p) (PS (regs (PORT p))), regs)"
  by (simp only: GPIO_Read_def unpack_def masked_shift_8)

lemma GPIO_ReadDataReg_unpack:
  "GPIO_ReadDataReg p regs = (unpack (MASK p) (SHIFT p) (DR (regs (PORT p))), regs)"
  by (simp only: GPIO_ReadDataReg_def unpack_def masked_shift_8)

lemma GPIO_ClearInterrupt_unpack:
  "GPIO_ClearInterrupt p regs =
     (unpack (MASK p) (SHIFT p) (INTSTAT (regs (PORT p))),
      regs (PORT p := (regs (PORT p))\<lparr>INTSTAT := 0\<rparr>))"
  by (simp only: GPIO_ClearInterrupt_def read_INTSTAT_def Let_def prod.case unpack_def masked_shift_8)

section \<open>The port register model\<close>

lemma unpack_pack:
  assumes "contiguous_run m s w"
  shows "unpack m s (pack m s r v) = v AND mask w"
proof -
  from assms have sw: "s + w \<le> 8" and m: "m = push_bit s (mask w)"
    by (simp_all add: contiguous_run_def)
  show ?thesis
    unfolding unpack_def pack_def m
    using sw by (intro bit_word_eqI) (auto simp add: bit_simps)
qed

lemma pack_outside_bit: "\<not> bit m n \<Longrightarrow> bit (pack m s r v) n = bit r n"
  unfolding pack_def by (auto simp add: bit_simps dest: bit_imp_le_length)

lemma disjoint_bits:
  assumes "m AND m' = (0 :: uint8)" and "bit m' n"
  shows "\<not> bit m n"
proof
  assume "bit m n"
  with assms(2) have "bit (m AND m') n" by (simp add: bit_simps)
  with assms(1) show False by simp
qed

lemma pack_and_disjoint:
  assumes "m AND m' = 0"
  shows "pack m s r v AND m' = r AND m'"
proof (rule bit_word_eqI)
  fix n
  show "bit (pack m s r v AND m') n = bit (r AND m') n"
    using disjoint_bits [OF assms, of n] pack_outside_bit [of m n s r v]
    by (auto simp add: bit_simps)
qed

lemma unpack_pack_disjoint:
  "m AND m' = 0 \<Longrightarrow> unpack m' s' (pack m s r v) = unpack m' s' r"
  by (simp only: unpack_def pack_and_disjoint)

lemma mask_as_c: "(push_bit w 1 - 1 :: uint8) = mask w"
  by (simp add: mask_eq_exp_minus_1 push_bit_eq_mult)

text \<open>
  Claim C2. For every value \<open>r\<close> of the data register, every mask that is a
  contiguous run of \<open>width\<close> ones at offset \<open>shift\<close>, and every logical value
  \<open>v\<close>: reading the data register back after writing \<open>v\<close> (unpack of pack) gives
  \<open>v & ((1 << width) - 1)\<close>, and gives \<open>v\<close> itself when \<open>v\<close> lies in
  \<open>[0, 2 ^ width)\<close>.
\<close>

theorem write_then_read_round_trip:
  "contiguous_run (MASK p) (SHIFT p) w \<longrightarrow>
     fst (GPIO_ReadDataReg p (GPIO_Write p v regs)) = v AND (push_bit w 1 - 1) \<and>
     (uint v < 2 ^ w \<longrightarrow> fst (GPIO_ReadDataReg p (GPIO_Write p v regs)) = v)"
proof
  assume run: "contiguous_run (MASK p) (SHIFT p) w"
  have rd: "fst (GPIO_ReadDataReg p (GPIO_Write p v regs)) =
      unpack (MASK p) (SHIFT p) (pack (MASK p) (SHIFT p) (DR (regs (PORT p))) v)"
    by (simp add: GPIO_ReadDataReg_unpack GPIO_Write_pack)
  have eq: "fst (GPIO_ReadDataReg p (GPIO_Write p v regs)) = v AND mask w"
    using rd unpack_pack [OF run] by simp
  moreover have "uint v < 2 ^ w \<Longrightarrow> v AND mask w = v"
    by (simp add: mask_eq_iff)
  ultimately show "fst (GPIO_ReadDataReg p (GPIO_Write p v regs)) = v AND (push_bit w 1 - 1) \<and>
     (uint v < 2 ^ w \<longrightarrow> fst (GPIO_ReadDataReg p (GPIO_Write p v regs)) = v)"
    by (simp only: mask_as_c) simp
qed

theorem write_then_read_round_trip_witness:
  "contiguous_run 0x80 7 1 \<and>
   fst (GPIO_ReadDataReg \<lparr>PORT = 12, MASK = 0x80, SHIFT = 7\<rparr>
         (GPIO_Write \<lparr>PORT = 12, MASK = 0x80, SHIFT = 7\<rparr> 3
           (\<lambda>_. \<lparr>DR = 0x55, PS = 0, INTSTAT = 0\<rparr>))) = 3 AND (push_bit 1 1 - 1) \<and>
   uint (1 :: uint8) < 2 ^ 1 \<and>
   fst (GPIO_ReadDataReg \<lparr>PORT = 12, MASK = 0x80, SHIFT = 7\<rparr>
         (GPIO_Write \<lparr>PORT = 12, MASK = 0x80, SHIFT = 7\<rparr> 1
           (\<lambda>_. \<lparr>DR = 0x55, PS = 0, INTSTAT = 0\<rparr>))) = 1"
proof -
  have run: "contiguous_run 0x80 7 1"
    by (simp add: contiguous_run_def)
  have narrow: "uint (1 :: uint8) < 2 ^ 1"
    by simp
  show ?thesis
    using run narrow
      write_then_read_round_trip [of "\<lparr>PORT = 12, MASK = 0x80, SHIFT = 7\<rparr>" 1 3
        "\<lambda>_. \<lparr>DR = 0x55, PS = 0, INTSTAT = 0\<rparr>"]
      write_then_read_round_trip [of "\<lparr>PORT = 12, MASK = 0x80, SHIFT = 7\<rparr>" 1 1
        "\<lambda>_. \<lparr>DR = 0x55, PS = 0, INTSTAT = 0\<rparr>"]
    by simp
qed

text \<open>
  Claim C3. For every value of the data register and every logical value, the
  register that \<open>GPIO_Write\<close> leaves agrees with the register it found on every
  bit position outside the mask of the port; so for two logical ports \<open>a\<close> and
  \<open>b\<close> on the same physical register with disjoint masks, a write to \<open>a\<close> leaves
  what \<open>b\<close> reads from the data register unchanged, and a write to \<open>b\<close> leaves
  what \<open>a\<close> reads unchanged.
\<close>

theorem write_keeps_foreign_bits:
  "(\<forall>n. \<not> bit (MASK a) n \<longrightarrow>
        bit (DR (GPIO_Write a v regs (PORT a))) n = bit (DR (regs (PORT a))) n) \<and>
   (PORT a = PORT b \<and> MASK a AND MASK b = 0 \<longrightarrow>
        fst (GPIO_ReadDataReg b (GPIO_Write a v regs)) = fst (GPIO_ReadDataReg b regs) \<and>
        fst (GPIO_ReadDataReg a (GPIO_Write b v regs)) = fst (GPIO_ReadDataReg a regs))"
proof (intro conjI allI impI)
  fix n
  assume "\<not> bit (MASK a) n"
  then show "bit (DR (GPIO_Write a v regs (PORT a))) n = bit (DR (regs (PORT a))) n"
    by (simp add: GPIO_Write_pack pack_outside_bit)
next
  assume h: "PORT a = PORT b \<and> MASK a AND MASK b = 0"
  then show "fst (GPIO_ReadDataReg b (GPIO_Write a v regs)) = fst (GPIO_ReadDataReg b regs)"
    by (simp add: GPIO_ReadDataReg_unpack GPIO_Write_pack unpack_pack_disjoint)
next
  assume h: "PORT a = PORT b \<and> MASK a AND MASK b = 0"
  then have "MASK b AND MASK a = 0"
    by (simp add: and.commute)
  with h show "fst (GPIO_ReadDataReg a (GPIO_Write b v regs)) = fst (GPIO_ReadDataReg a regs)"
    by (simp add: GPIO_ReadDataReg_unpack GPIO_Write_pack unpack_pack_disjoint)
qed

theorem write_keeps_foreign_bits_witness:
  "\<not> bit (0x01 :: uint8) 1 \<and>
   bit (DR (GPIO_Write \<lparr>PORT = 2, MASK = 0x01, SHIFT = 0\<rparr> 1
              (\<lambda>_. \<lparr>DR = 0x02, PS = 0, INTSTAT = 0\<rparr>) 2)) 1 = bit (0x02 :: uint8) 1 \<and>
   (0x01 :: uint8) AND 0x02 = 0 \<and>
   fst (GPIO_ReadDataReg \<lparr>PORT = 2, MASK = 0x02, SHIFT = 1\<rparr>
         (GPIO_Write \<lparr>PORT = 2, MASK = 0x01, SHIFT = 0\<rparr> 1 (\<lambda>_. \<lparr>DR = 0x02, PS = 0, INTSTAT = 0\<rparr>))) = 1 \<and>
   fst (GPIO_ReadDataReg \<lparr>PORT = 2, MASK = 0x01, SHIFT = 0\<rparr>
         (GPIO_Write \<lparr>PORT = 2, MASK = 0x02, SHIFT = 1\<rparr> 1 (\<lambda>_. \<lparr>DR = 0x02, PS = 0, INTSTAT = 0\<rparr>))) = 0"
proof -
  have outside: "\<not> bit (0x01 :: uint8) 1"
    by (simp add: bit_numeral_iff bit_1_iff)
  have disjoint: "(0x01 :: uint8) AND 0x02 = 0"
    by simp
  have before_b: "fst (GPIO_ReadDataReg \<lparr>PORT = 2, MASK = 0x02, SHIFT = 1\<rparr> (\<lambda>_. \<lparr>DR = 0x02, PS = 0, INTSTAT = 0\<rparr>)) = 1"
    by (simp add: GPIO_ReadDataReg_unpack unpack_def)
  have before_a: "fst (GPIO_ReadDataReg \<lparr>PORT = 2, MASK = 0x01, SHIFT = 0\<rparr> (\<lambda>_. \<lparr>DR = 0x02, PS = 0, INTSTAT = 0\<rparr>)) = 0"
    by (simp add: GPIO_ReadDataReg_unpack unpack_def)
  show ?thesis
    using outside disjoint before_a before_b
      write_keeps_foreign_bits [of "\<lparr>PORT = 2, MASK = 0x01, SHIFT = 0\<rparr>" 1
        "\<lambda>_. \<lparr>DR = 0x02, PS = 0, INTSTAT = 0\<rparr>" "\<lparr>PORT = 2, MASK = 0x02, SHIFT = 1\<rparr>"]
    by simp
qed

text \<open>
  Claim C7. \<open>GPIO_Read\<close> returns unpack of the pin state register and
  \<open>GPIO_ReadDataReg\<close> returns unpack of the data register, so the two differ
  when the pin state differs from the last value written (last conjunct: data
  register 0x80, pin state 0); both leave every register as it was, and a second
  call right after the first returns the same value.
\<close>

theorem reads_have_no_side_effect:
  "GPIO_Read p regs = (unpack (MASK p) (SHIFT p) (PS (regs (PORT p))), regs) \<and>
   GPIO_ReadDataReg p regs = (unpack (MASK p) (SHIFT p) (DR (regs (PORT p))), regs) \<and>
   GPIO_Read p (snd (GPIO_Read p regs)) = GPIO_Read p regs \<and>
   GPIO_ReadDataReg p (snd (GPIO_ReadDataReg p regs)) = GPIO_ReadDataReg p regs \<and>
   fst (GPIO_Read \<lparr>PORT = 12, MASK = 0x80, SHIFT = 7\<rparr> (\<lambda>_. \<lparr>DR = 0x80, PS = 0, INTSTAT = 0\<rparr>))
     \<noteq> fst (GPIO_ReadDataReg \<lparr>PORT = 12, MASK = 0x80, SHIFT = 7\<rparr> (\<lambda>_. \<lparr>DR = 0x80, PS = 0, INTSTAT = 0\<rparr>))"
  by (simp add: GPIO_Read_unpack GPIO_ReadDataReg_unpack unpack_def)

text \<open>
  Claim C8. \<open>GPIO_ClearInterrupt\<close> returns \<open>(interrupt_status & mask) >> shift\<close> of
  the interrupt status register as it was before the call, and after the call the
  bits of the port's mask in the interrupt status register are clear.
\<close>

theorem clear_interrupt_returns_status_and_clears:
  "fst (GPIO_ClearInterrupt p regs) = drop_bit (SHIFT p) (INTSTAT (regs (PORT p)) AND MASK p) \<and>
   INTSTAT (snd (GPIO_ClearInterrupt p regs) (PORT p)) AND MASK p = 0"
  by (simp add: GPIO_ClearInterrupt_unpack unpack_def)

section \<open>Receiving a frame\<close>

lemma wait_until_first:
  "\<forall>x \<in> set pre. \<not> ready x \<Longrightarrow> ready y \<Longrightarrow> wait_until ready (pre @ y # rest) = Some (y, rest)"
  by (induction pre) simp_all

lemma wait_until_ends: "ready y \<Longrightarrow> wait_until ready (pre @ y # rest) \<noteq> None"
  by (induction pre) simp_all

lemma SPIS_1_receive_byte:
  "RxPolls s = replicate n None @ Some b # rest \<Longrightarrow> SPIS_1_receive s = Some (b, s\<lparr>RxPolls := rest\<rparr>)"
  by (simp add: SPIS_1_receive_def wait_until_first)

lemma shifted_high_byte_zero: "push_bit 8 (promote (hi :: uint8)) = 0 \<longleftrightarrow> hi = 0"
proof
  assume z: "push_bit 8 (promote hi) = 0"
  show "hi = 0"
  proof (rule bit_word_eqI)
    fix n
    assume n: "n < LENGTH(8)"
    then have "bit (push_bit 8 (promote hi)) (n + 8) = bit hi n"
      by (simp add: promote_def bit_simps)
    with z show "bit hi n = bit (0 :: uint8) n"
      by simp
  qed
next
  assume "hi = 0"
  then show "push_bit 8 (promote hi) = 0"
    by (simp add: promote_def)
qed

lemma promoted_zero: "promote (lo :: uint8) = 0 \<longleftrightarrow> lo = 0"
proof
  assume z: "promote lo = 0"
  show "lo = 0"
  proof (rule bit_word_eqI)
    fix n
    assume n: "n < LENGTH(8)"
    then have "bit (promote lo) n = bit lo n"
      by (simp add: promote_def bit_simps)
    with z show "bit lo n = bit (0 :: uint8) n"
      by simp
  qed
next
  assume "lo = 0"
  then show "promote lo = 0"
    by (simp add: promote_def)
qed

lemma store_frame_dat:
  "store_frame vessel a c lo hi = vessel\<lparr>addr := a, cmd := c, dat := (if hi \<noteq> 0 \<or> lo \<noteq> 0 then 1 else 0)\<rparr>"
  by (simp add: store_frame_def logical_or_def shifted_high_byte_zero promoted_zero to_uint16_def)

lemma Python_getData_SPI:
  assumes "RxPolls s = replicate n1 None @ Some a # replicate n2 None @ Some c #
             replicate n3 None @ Some lo # replicate n4 None @ Some hi # rest"
  shows "Python_getData vessel (USE_SPI s) =
           Some (store_frame vessel a c lo hi, USE_SPI (s\<lparr>RxPolls := rest\<rparr>))"
proof -
  let ?s1 = "s\<lparr>RxPolls := replicate n2 None @ Some c # replicate n3 None @ Some lo # replicate n4 None @ Some hi # rest\<rparr>"
  let ?s2 = "s\<lparr>RxPolls := replicate n3 None @ Some lo # replicate n4 None @ Some hi # rest\<rparr>"
  let ?s3 = "s\<lparr>RxPolls := replicate n4 None @ Some hi # rest\<rparr>"
  have r1: "SPIS_1_receive s = Some (a, ?s1)"
    using assms by (rule SPIS_1_receive_byte)
  have r2: "SPIS_1_receive ?s1 = Some (c, ?s2)"
    using SPIS_1_receive_byte [of ?s1 n2 c] by simp
  have r3: "SPIS_1_receive ?s2 = Some (lo, ?s3)"
    using SPIS_1_receive_byte [of ?s2 n3 lo] by simp
  have r4: "SPIS_1_receive ?s3 = Some (hi, s\<lparr>RxPolls := rest\<rparr>)"
    using SPIS_1_receive_byte [of ?s3 n4 hi] by simp
  show ?thesis
    by (simp add: r1 r2 r3 r4)
qed

lemma Python_getData_I2C:
  assumes "I2C_polls i = idle @ p1 # busy @ p2 # rest"
    and "\<forall>p \<in> set idle. WriteBufSize p = 0" and "WriteBufSize p1 \<noteq> 0"
    and "\<forall>p \<in> set busy. \<not> WR_CMPLT p" and "WR_CMPLT p2"
  shows "Python_getData vessel (USE_I2C i) =
           Some (store_frame vessel (WR_buf p2 0) (WR_buf p2 1) (WR_buf p2 2) (WR_buf p2 3),
                 USE_I2C (i\<lparr>I2C_polls := rest\<rparr>))"
proof -
  have w1: "wait_until (\<lambda>p. WriteBufSize p \<noteq> 0) (I2C_polls i) = Some (p1, busy @ p2 # rest)"
    using assms(1-3) by (simp add: wait_until_first)
  have w2: "wait_until WR_CMPLT (busy @ p2 # rest) = Some (p2, rest)"
    using assms(4,5) by (simp add: wait_until_first)
  show ?thesis
    unfolding Python_getData.simps w1
    by (simp add: w2 I2C_1_SlaveClearWriteStatus_def I2C_1_SlaveClearWriteBuf_def)
qed

lemma Python_getData_dat:
  assumes "Python_getData vessel t = Some (v', t')"
  shows "dat v' = 0 \<or> dat v' = 1"
proof (cases t)
  case (USE_SPI s)
  with assms obtain a c lo hi where "v' = store_frame vessel a c lo hi"
    by (auto split: Option.bind_splits)
  then show ?thesis
    by (simp add: store_frame_dat)
next
  case (USE_I2C i)
  with assms obtain a c lo hi where "v' = store_frame vessel a c lo hi"
    by (auto split: Option.bind_splits)
  then show ?thesis
    by (simp add: store_frame_dat)
qed

text \<open>
  Claim C9. For every four received bytes (address, command, data low, data
  high), over SPI after any number of polls that find the buffer empty and over
  I2C once the write is complete, \<open>Python_getData\<close> returns and the data field it
  stores is exactly 1 when the high byte or the low byte is not zero and exactly
  0 when both are zero; whatever the bytes received, the stored data field never
  exceeds 1.
\<close>

theorem getData_stores_truth_value:
  "(RxPolls s = replicate n1 None @ Some a # replicate n2 None @ Some c #
       replicate n3 None @ Some lo # replicate n4 None @ Some hi # rest \<longrightarrow>
      Python_getData vessel (USE_SPI s) =
        Some (vessel\<lparr>addr := a, cmd := c, dat := (if hi \<noteq> 0 \<or> lo \<noteq> 0 then 1 else 0)\<rparr>,
              USE_SPI (s\<lparr>RxPolls := rest\<rparr>))) \<and>
   (I2C_polls i = idle @ p1 # busy @ p2 # later \<and>
    (\<forall>p \<in> set idle. WriteBufSize p = 0) \<and> WriteBufSize p1 \<noteq> 0 \<and>
    (\<forall>p \<in> set busy. \<not> WR_CMPLT p) \<and> WR_CMPLT p2 \<longrightarrow>
      Python_getData vessel (USE_I2C i) =
        Some (vessel\<lparr>addr := WR_buf p2 0, cmd := WR_buf p2 1,
                dat := (if WR_buf p2 3 \<noteq> 0 \<or> WR_buf p2 2 \<noteq> 0 then 1 else 0)\<rparr>,
              USE_I2C (i\<lparr>I2C_polls := later\<rparr>))) \<and>
   (Python_getData vessel t = Some (v', t') \<longrightarrow> dat v' \<le> 1)"
proof (intro conjI impI)
  assume "RxPolls s = replicate n1 None @ Some a # replicate n2 None @ Some c #
       replicate n3 None @ Some lo # replicate n4 None @ Some hi # rest"
  then show "Python_getData vessel (USE_SPI s) =
        Some (vessel\<lparr>addr := a, cmd := c, dat := (if hi \<noteq> 0 \<or> lo \<noteq> 0 then 1 else 0)\<rparr>,
              USE_SPI (s\<lparr>RxPolls := rest\<rparr>))"
    by (simp only: Python_getData_SPI store_frame_dat)
next
  assume h: "I2C_polls i = idle @ p1 # busy @ p2 # later \<and>
    (\<forall>p \<in> set idle. WriteBufSize p = 0) \<and> WriteBufSize p1 \<noteq> 0 \<and>
    (\<forall>p \<in> set busy. \<not> WR_CMPLT p) \<and> WR_CMPLT p2"
  then have polls: "I2C_polls i = idle @ p1 # busy @ p2 # later"
    and idle: "\<forall>p \<in> set idle. WriteBufSize p = 0" and p1: "WriteBufSize p1 \<noteq> 0"
    and busy: "\<forall>p \<in> set busy. \<not> WR_CMPLT p" and p2: "WR_CMPLT p2"
    by blast+
  show "Python_getData vessel (USE_I2C i) =
        Some (vessel\<lparr>addr := WR_buf p2 0, cmd := WR_buf p2 1,
                dat := (if WR_buf p2 3 \<noteq> 0 \<or> WR_buf p2 2 \<noteq> 0 then 1 else 0)\<rparr>,
              USE_I2C (i\<lparr>I2C_polls := later\<rparr>))"
    by (simp only: Python_getData_I2C [OF polls idle p1 busy p2] store_frame_dat)
next
  assume "Python_getData vessel t = Some (v', t')"
  then have "dat v' = 0 \<or> dat v' = 1"
    by (rule Python_getData_dat)
  then show "dat v' \<le> 1"
    by auto
qed

theorem getData_stores_truth_value_witness:
  "Python_getData \<lparr>addr = 0, cmd = 0, dat = 0, pin = 0, port = 0\<rparr>
     (USE_SPI \<lparr>RxPolls = [None, Some 0x20, Some 0x01, None, None, Some 0x12, Some 0x34, Some 0x99],
               TxBuffer = [], TxPolls = []\<rparr>) =
     Some (\<lparr>addr = 0x20, cmd = 0x01, dat = 1, pin = 0, port = 0\<rparr>,
           USE_SPI \<lparr>RxPolls = [Some 0x99], TxBuffer = [], TxPolls = []\<rparr>) \<and>
   Python_getData \<lparr>addr = 0, cmd = 0, dat = 0, pin = 0, port = 0\<rparr>
     (USE_I2C \<lparr>RD_buf = (\<lambda>_. 0), I2C_polls =
        [\<lparr>WriteBufSize = 0, WR_CMPLT = False, WR_buf = (\<lambda>_. 0), ReadBufSize = 0, RD_CMPLT = False\<rparr>,
         \<lparr>WriteBufSize = 1, WR_CMPLT = False, WR_buf = (\<lambda>_. 0), ReadBufSize = 0, RD_CMPLT = False\<rparr>,
         \<lparr>WriteBufSize = 3, WR_CMPLT = False, WR_buf = (\<lambda>_. 0), ReadBufSize = 0, RD_CMPLT = False\<rparr>,
         \<lparr>WriteBufSize = 4, WR_CMPLT = True,
           WR_buf = (\<lambda>k. if k = 0 then 0x20 else if k = 1 then 0x03 else 0),
           ReadBufSize = 0, RD_CMPLT = False\<rparr>]\<rparr>) =
     Some (\<lparr>addr = 0x20, cmd = 0x03, dat = 0, pin = 0, port = 0\<rparr>,
           USE_I2C \<lparr>RD_buf = (\<lambda>_. 0), I2C_polls = []\<rparr>) \<and>
   dat \<lparr>addr = 0x20, cmd = 0x01, dat = 1, pin = 0, port = 0\<rparr> \<le> 1"
proof -
  have two: "replicate 2 (None :: uint8 option) = [None, None]"
    by (simp add: numeral_2_eq_2)
  show ?thesis
  using getData_stores_truth_value [where
      s = "\<lparr>RxPolls = [None, Some 0x20, Some 0x01, None, None, Some 0x12, Some 0x34, Some 0x99],
            TxBuffer = [], TxPolls = []\<rparr>"
      and ?n1.0 = 1 and a = "0x20" and ?n2.0 = 0 and c = "0x01" and ?n3.0 = 2 and lo = "0x12"
      and ?n4.0 = 0 and hi = "0x34" and rest = "[Some 0x99]"
      and vessel = "\<lparr>addr = 0, cmd = 0, dat = 0, pin = 0, port = 0\<rparr>"
      and i = "\<lparr>RD_buf = (\<lambda>_. 0), I2C_polls =
        [\<lparr>WriteBufSize = 0, WR_CMPLT = False, WR_buf = (\<lambda>_. 0), ReadBufSize = 0, RD_CMPLT = False\<rparr>,
         \<lparr>WriteBufSize = 1, WR_CMPLT = False, WR_buf = (\<lambda>_. 0), ReadBufSize = 0, RD_CMPLT = False\<rparr>,
         \<lparr>WriteBufSize = 3, WR_CMPLT = False, WR_buf = (\<lambda>_. 0), ReadBufSize = 0, RD_CMPLT = False\<rparr>,
         \<lparr>WriteBufSize = 4, WR_CMPLT = True,
           WR_buf = (\<lambda>k. if k = 0 then 0x20 else if k = 1 then 0x03 else 0),
           ReadBufSize = 0, RD_CMPLT = False\<rparr>]\<rparr>"
      and idle = "[\<lparr>WriteBufSize = 0, WR_CMPLT = False, WR_buf = (\<lambda>_. 0), ReadBufSize = 0, RD_CMPLT = False\<rparr>]"
      and ?p1.0 = "\<lparr>WriteBufSize = 1, WR_CMPLT = False, WR_buf = (\<lambda>_. 0), ReadBufSize = 0, RD_CMPLT = False\<rparr>"
      and busy = "[\<lparr>WriteBufSize = 3, WR_CMPLT = False, WR_buf = (\<lambda>_. 0), ReadBufSize = 0, RD_CMPLT = False\<rparr>]"
      and ?p2.0 = "\<lparr>WriteBufSize = 4, WR_CMPLT = True,
           WR_buf = (\<lambda>k. if k = 0 then 0x20 else if k = 1 then 0x03 else 0),
           ReadBufSize = 0, RD_CMPLT = False\<rparr>"
      and later = "[]"
      and t = "USE_SPI \<lparr>RxPolls = [None, Some 0x20, Some 0x01, None, None, Some 0x12, Some 0x34, Some 0x99],
            TxBuffer = [], TxPolls = []\<rparr>"
      and v' = "\<lparr>addr = 0x20, cmd = 0x01, dat = 1, pin = 0, port = 0\<rparr>"
      and t' = "USE_SPI \<lparr>RxPolls = [Some 0x99], TxBuffer = [], TxPolls = []\<rparr>"]
    by (simp add: two)
qed

text \<open>
  Claim C1. The decoder is to store \<open>(data_high << 8) | data_low\<close>, so that the
  bytes 0x20, 0x01, 0x12, 0x00 decode to address 0x20, command 0x01 and data
  0x0012. On these bytes \<open>Python_getData\<close> stores the address and the command,
  and the data 0x0001.
\<close>

theorem getData_frame_20_01_12_00:
  "Python_getData \<lparr>addr = 0, cmd = 0, dat = 0, pin = 0, port = 0\<rparr>
     (USE_SPI \<lparr>RxPolls = [Some 0x20, Some 0x01, Some 0x12, Some 0x00], TxBuffer = [], TxPolls = []\<rparr>) =
     Some (\<lparr>addr = 0x20, cmd = 0x01, dat = 0x0001, pin = 0, port = 0\<rparr>,
           USE_SPI \<lparr>RxPolls = [], TxBuffer = [], TxPolls = []\<rparr>)"
  by (simp add: SPIS_1_receive_def store_frame_def logical_or_def promote_def to_uint16_def)

section \<open>Sending a response\<close>

lemma out_lo_byte: "out_lo d = ucast (d AND 0xFF)"
  by (simp add: out_lo_def to_uint8_def)

lemma out_mid_lo_byte: "out_mid_lo d = ucast (drop_bit 8 d AND 0xFF)"
proof -
  have "(0xFF00 :: uint32) = push_bit 8 (mask 8)" and "(0xFF :: uint32) = mask 8"
    by (simp_all add: mask_eq_exp_minus_1)
  then show ?thesis
    unfolding out_mid_lo_def to_uint8_def
    by (intro bit_word_eqI) (auto simp add: bit_simps)
qed

lemma out_mid_hi_byte: "out_mid_hi d = ucast (drop_bit 16 d AND 0xFF)"
proof -
  have "(0xFF0000 :: uint32) = push_bit 16 (mask 8)" and "(0xFF :: uint32) = mask 8"
    by (simp_all add: mask_eq_exp_minus_1)
  then show ?thesis
    unfolding out_mid_hi_def to_uint8_def
    by (intro bit_word_eqI) (auto simp add: bit_simps)
qed

lemma out_hi_byte: "out_hi d = ucast (drop_bit 24 d AND 0xFF)"
proof -
  have "(0xFF000000 :: uint32) = push_bit 24 (mask 8)" and "(0xFF :: uint32) = mask 8"
    by (simp_all add: mask_eq_exp_minus_1)
  then show ?thesis
    unfolding out_hi_def to_uint8_def
    by (intro bit_word_eqI) (auto simp add: bit_simps)
qed

lemma Python_sendData_bytes:
  assumes "Python_sendData d t = Some t'"
  shows "bytes_to_send t' = [out_lo d, out_mid_lo d, out_mid_hi d, out_hi d]"
proof (cases t)
  case (USE_SPI s)
  with assms show ?thesis
    by (auto simp add: Let_def SPIS_1_ClearTxBuffer_def SPIS_1_ClearFIFO_def SPIS_1_ClearRxBuffer_def
        SPIS_1_WriteTxDataZero_def SPIS_1_PutArray_def split: Option.bind_splits)
next
  case (USE_I2C i)
  with assms show ?thesis
    by (auto simp add: Let_def I2C_1_SlaveClearReadBuf_def I2C_1_SlaveClearReadStatus_def
        split: Option.bind_splits)
qed

lemma Python_sendData_SPI_returns:
  assumes "TxPolls s = pre @ True # rest"
  shows "Python_sendData d (USE_SPI s) \<noteq> None"
proof -
  have "wait_until (\<lambda>spi_done. spi_done) (pre @ True # rest) \<noteq> None"
    by (rule wait_until_ends) simp
  with assms show ?thesis
    by (auto simp add: Let_def SPIS_1_ClearTxBuffer_def SPIS_1_ClearFIFO_def SPIS_1_ClearRxBuffer_def
        SPIS_1_WriteTxDataZero_def SPIS_1_PutArray_def split: Option.bind_splits)
qed

lemma wait_until_twice:
  assumes "ready1 y1" and "ready2 y2"
  shows "\<exists>y ps z ps'. wait_until ready1 (pre @ y1 # mid @ y2 # rest) = Some (y, ps) \<and>
           wait_until ready2 ps = Some (z, ps')"
proof (induction pre)
  case Nil
  have "wait_until ready2 (mid @ y2 # rest) \<noteq> None"
    using assms(2) by (rule wait_until_ends)
  with assms(1) show ?case by auto
next
  case (Cons x pre)
  show ?case
  proof (cases "ready1 x")
    case True
    have "wait_until ready2 ((pre @ y1 # mid) @ y2 # rest) \<noteq> None"
      using assms(2) by (rule wait_until_ends)
    with True show ?thesis by auto
  next
    case False
    with Cons show ?thesis by simp
  qed
qed

lemma Python_sendData_I2C_returns:
  assumes "I2C_polls i = pre @ p1 # mid @ p2 # rest" and "ReadBufSize p1 = 0" and "RD_CMPLT p2"
  shows "Python_sendData d (USE_I2C i) \<noteq> None"
proof -
  obtain y ps z ps' where "wait_until (\<lambda>p. ReadBufSize p = 0) (pre @ p1 # mid @ p2 # rest) = Some (y, ps)"
    and "wait_until RD_CMPLT ps = Some (z, ps')"
    using wait_until_twice [of "\<lambda>p. ReadBufSize p = 0" p1 RD_CMPLT p2 pre mid rest] assms(2,3)
    by blast
  with assms(1) show ?thesis
    by (simp add: Let_def)
qed

text \<open>
  Claim C6. For every 32-bit response value, \<open>Python_sendData\<close> hands exactly four
  bytes to the bus, least significant byte first: \<open>value & 0xFF\<close>,
  \<open>(value >> 8) & 0xFF\<close>, \<open>(value >> 16) & 0xFF\<close>, \<open>(value >> 24) & 0xFF\<close>; and
  the call returns once a poll finds the transfer done (SPI), or the read buffer
  free and later the read complete (I2C). The witness encodes 0x12345678 as
  0x78, 0x56, 0x34, 0x12.
\<close>

theorem sendData_least_significant_byte_first:
  "(Python_sendData d t = Some t' \<longrightarrow>
      bytes_to_send t' = [ucast (d AND 0xFF), ucast (drop_bit 8 d AND 0xFF),
                          ucast (drop_bit 16 d AND 0xFF), ucast (drop_bit 24 d AND 0xFF)]) \<and>
   (TxPolls s = pre @ True # rest \<longrightarrow> Python_sendData d (USE_SPI s) \<noteq> None) \<and>
   (I2C_polls i = idle @ p1 # busy @ p2 # later \<and> ReadBufSize p1 = 0 \<and> RD_CMPLT p2 \<longrightarrow>
      Python_sendData d (USE_I2C i) \<noteq> None)"
proof (intro conjI impI)
  assume "Python_sendData d t = Some t'"
  then have "bytes_to_send t' = [out_lo d, out_mid_lo d, out_mid_hi d, out_hi d]"
    by (rule Python_sendData_bytes)
  then show "bytes_to_send t' = [ucast (d AND 0xFF), ucast (drop_bit 8 d AND 0xFF),
                          ucast (drop_bit 16 d AND 0xFF), ucast (drop_bit 24 d AND 0xFF)]"
    by (simp only: out_lo_byte out_mid_lo_byte out_mid_hi_byte out_hi_byte)
next
  assume "TxPolls s = pre @ True # rest"
  then show "Python_sendData d (USE_SPI s) \<noteq> None"
    by (rule Python_sendData_SPI_returns)
next
  assume "I2C_polls i = idle @ p1 # busy @ p2 # later \<and> ReadBufSize p1 = 0 \<and> RD_CMPLT p2"
  then show "Python_sendData d (USE_I2C i) \<noteq> None"
    using Python_sendData_I2C_returns [of i idle p1 busy p2 later d] by blast
qed

theorem sendData_least_significant_byte_first_witness:
  "Python_sendData 0x12345678 (USE_SPI \<lparr>RxPolls = [], TxBuffer = [0xAA], TxPolls = [False, True]\<rparr>) =
     Some (USE_SPI \<lparr>RxPolls = [], TxBuffer = [0x78, 0x56, 0x34, 0x12], TxPolls = []\<rparr>) \<and>
   bytes_to_send (USE_SPI \<lparr>RxPolls = [], TxBuffer = [0x78, 0x56, 0x34, 0x12], TxPolls = []\<rparr>) =
     [0x78, 0x56, 0x34, 0x12] \<and>
   Python_sendData 0x12345678 (USE_I2C \<lparr>RD_buf = (\<lambda>_. 0), I2C_polls =
      [\<lparr>WriteBufSize = 0, WR_CMPLT = False, WR_buf = (\<lambda>_. 0), ReadBufSize = 0, RD_CMPLT = False\<rparr>,
       \<lparr>WriteBufSize = 0, WR_CMPLT = False, WR_buf = (\<lambda>_. 0), ReadBufSize = 4, RD_CMPLT = True\<rparr>]\<rparr>)
     \<noteq> None"
  using sendData_least_significant_byte_first [where d = "0x12345678"
      and t = "USE_SPI \<lparr>RxPolls = [], TxBuffer = [0xAA], TxPolls = [False, True]\<rparr>"
      and t' = "USE_SPI \<lparr>RxPolls = [], TxBuffer = [0x78, 0x56, 0x34, 0x12], TxPolls = []\<rparr>"
      and s = "\<lparr>RxPolls = [], TxBuffer = [0xAA], TxPolls = [False, True]\<rparr>"
      and pre = "[False]" and rest = "[]"
      and i = "\<lparr>RD_buf = (\<lambda>_. 0), I2C_polls =
      [\<lparr>WriteBufSize = 0, WR_CMPLT = False, WR_buf = (\<lambda>_. 0), ReadBufSize = 0, RD_CMPLT = False\<rparr>,
       \<lparr>WriteBufSize = 0, WR_CMPLT = False, WR_buf = (\<lambda>_. 0), ReadBufSize = 4, RD_CMPLT = True\<rparr>]\<rparr>"
      and idle = "[]"
      and ?p1.0 = "\<lparr>WriteBufSize = 0, WR_CMPLT = False, WR_buf = (\<lambda>_. 0), ReadBufSize = 0, RD_CMPLT = False\<rparr>"
      and busy = "[]"
      and ?p2.0 = "\<lparr>WriteBufSize = 0, WR_CMPLT = False, WR_buf = (\<lambda>_. 0), ReadBufSize = 4, RD_CMPLT = True\<rparr>"
      and later = "[]"]
  by (simp add: Let_def SPIS_1_ClearTxBuffer_def SPIS_1_ClearFIFO_def SPIS_1_ClearRxBuffer_def
        SPIS_1_WriteTxDataZero_def SPIS_1_PutArray_def out_lo_def out_mid_lo_def out_mid_hi_def
        out_hi_def to_uint8_def)

section \<open>Dispatch\<close>

lemma pin_field: "to_uint8 (drop_bit 1 (promote (d :: uint16)) AND 0x0007) = ucast (drop_bit 1 d AND 0x7)"
proof -
  have "(0x7 :: uint32) = mask 3" and "(0x7 :: uint16) = mask 3"
    by (simp_all add: mask_eq_exp_minus_1)
  then show ?thesis
    unfolding to_uint8_def promote_def
    by (intro bit_word_eqI) (auto simp add: bit_simps)
qed

lemma port_field: "to_uint8 (drop_bit 4 (promote (d :: uint16)) AND 0x000F) = ucast (drop_bit 4 d AND 0xF)"
proof -
  have "(0xF :: uint32) = mask 4" and "(0xF :: uint16) = mask 4"
    by (simp_all add: mask_eq_exp_minus_1)
  then show ?thesis
    unfolding to_uint8_def promote_def
    by (intro bit_word_eqI) (auto simp add: bit_simps)
qed

lemma bit0_field: "to_uint16 (promote (d :: uint16) AND 0x0001) = d AND 0x0001"
proof -
  have "(1 :: uint32) = mask 1" and "(1 :: uint16) = mask 1"
    by (simp_all add: mask_eq_exp_minus_1)
  then show ?thesis
    unfolding to_uint16_def promote_def
    by (intro bit_word_eqI) (auto simp add: bit_simps)
qed

lemma high_nibble_field: "to_uint16 (drop_bit 8 (promote (d :: uint16)) AND 0x000F) = drop_bit 8 d AND 0xF"
proof -
  have "(0xF :: uint32) = mask 4" and "(0xF :: uint16) = mask 4"
    by (simp_all add: mask_eq_exp_minus_1)
  then show ?thesis
    unfolding to_uint16_def promote_def
    by (intro bit_word_eqI) (auto simp add: bit_simps)
qed

lemma Python_parser_other_address: "addr v \<noteq> GPIO_REGISTER b \<Longrightarrow> Python_parser b v = v"
  by (simp add: Python_parser_def Let_def)

lemma Python_parser_addr_cmd: "addr (Python_parser b v) = addr v \<and> cmd (Python_parser b v) = cmd v"
  by (simp add: Python_parser_def Let_def)

lemma Python_parser_dat:
  "cmd v \<noteq> 0x01 \<Longrightarrow> cmd v \<noteq> 0x03 \<Longrightarrow> dat (Python_parser b v) = dat v"
  by (simp add: Python_parser_def Let_def)

lemma Python_parser_GPIO:
  assumes "distinct (case_labels b)" and "addr v = GPIO_REGISTER b"
  shows "Python_parser b v =
    v\<lparr>pin := ucast (drop_bit 1 (dat v) AND 0x7), port := ucast (drop_bit 4 (dat v) AND 0xF),
      dat := (if cmd v = 0x01 then dat v AND 0x0001
              else if cmd v = 0x03 then drop_bit 8 (dat v) AND 0xF else dat v)\<rparr>"
proof -
  from assms(1) have "GPIO_REGISTER b \<notin> set (peripheral_cases b)"
    by (simp add: case_labels_def)
  with assms(2) show ?thesis
    by (simp only: Python_parser_def Let_def pin_field port_field bit0_field high_nibble_field) simp
qed

text \<open>
  Claim C4, as the sources have it. The claim ends: for any other command the
  frame is returned unmodified. \<open>Python_parser\<close> writes the fields \<open>pin\<close> and
  \<open>port\<close> before it looks at the command, so with command 0x02 the frame that
  comes back differs from the frame that went in.
\<close>

theorem parser_gpio_other_command_counterexample:
  "Python_parser \<lparr>peripheral_cases = [], GPIO_REGISTER = 0x20, CHECK_BUILD = 0xFE, RESET_ADDRESS = 0xFF\<rparr>
     \<lparr>addr = 0x20, cmd = 0x02, dat = 0x0012, pin = 0, port = 0\<rparr> =
     \<lparr>addr = 0x20, cmd = 0x02, dat = 0x0012, pin = 1, port = 1\<rparr> \<and>
   Python_parser \<lparr>peripheral_cases = [], GPIO_REGISTER = 0x20, CHECK_BUILD = 0xFE, RESET_ADDRESS = 0xFF\<rparr>
     \<lparr>addr = 0x20, cmd = 0x02, dat = 0x0012, pin = 0, port = 0\<rparr> \<noteq>
     \<lparr>addr = 0x20, cmd = 0x02, dat = 0x0012, pin = 0, port = 0\<rparr>"
  by (simp add: Python_parser_def Let_def to_uint8_def promote_def)

text \<open>
  Claim C4, amended. For every frame whose address equals \<open>GPIO_REGISTER\<close> (the
  case labels being distinct, as C requires), the handler stores
  \<open>pin = (data >> 1) & 0x7\<close> and \<open>port = (data >> 4) & 0xF\<close>; with command 0x01
  it replaces the data with \<open>data & 0x0001\<close>, with command 0x03 with
  \<open>(data >> 8) & 0xF\<close>, and with any other command it leaves address, command
  and data as they were, \<open>pin\<close> and \<open>port\<close> being written all the same.
\<close>

theorem parser_gpio_sub_protocol:
  "distinct (case_labels b) \<and> addr v = GPIO_REGISTER b \<longrightarrow>
     Python_parser b v =
       v\<lparr>pin := ucast (drop_bit 1 (dat v) AND 0x7), port := ucast (drop_bit 4 (dat v) AND 0xF),
         dat := (if cmd v = 0x01 then dat v AND 0x0001
                 else if cmd v = 0x03 then drop_bit 8 (dat v) AND 0xF else dat v)\<rparr>"
  using Python_parser_GPIO by blast

theorem parser_gpio_sub_protocol_witness:
  "distinct (case_labels \<lparr>peripheral_cases = [0x01, 0x02], GPIO_REGISTER = 0x20, CHECK_BUILD = 0xFE, RESET_ADDRESS = 0xFF\<rparr>) \<and>
   Python_parser \<lparr>peripheral_cases = [0x01, 0x02], GPIO_REGISTER = 0x20, CHECK_BUILD = 0xFE, RESET_ADDRESS = 0xFF\<rparr>
     \<lparr>addr = 0x20, cmd = 0x03, dat = 0x0A12, pin = 0, port = 0\<rparr> =
     \<lparr>addr = 0x20, cmd = 0x03, dat = 0x000A, pin = 1, port = 1\<rparr>"
proof -
  have labels: "distinct (case_labels \<lparr>peripheral_cases = [0x01, 0x02], GPIO_REGISTER = 0x20, CHECK_BUILD = 0xFE, RESET_ADDRESS = 0xFF\<rparr>)"
    by (simp add: case_labels_def)
  show ?thesis
    using labels parser_gpio_sub_protocol [where
        b = "\<lparr>peripheral_cases = [0x01, 0x02], GPIO_REGISTER = 0x20, CHECK_BUILD = 0xFE, RESET_ADDRESS = 0xFF\<rparr>"
        and v = "\<lparr>addr = 0x20, cmd = 0x03, dat = 0x0A12, pin = 0, port = 0\<rparr>"]
    by simp
qed

text \<open>
  Claim C5, as the sources have it. The claim extends the silent no-op (payload
  at its prior value, no error, no state change) to a known address with an
  unsupported command. At the address \<open>GPIO_REGISTER\<close> with the unsupported
  command 0x04 the fields \<open>pin\<close> and \<open>port\<close> of the frame change.
\<close>

theorem parser_unsupported_command_counterexample:
  "Python_parser \<lparr>peripheral_cases = [0x01, 0x02], GPIO_REGISTER = 0x20, CHECK_BUILD = 0xFE, RESET_ADDRESS = 0xFF\<rparr>
     \<lparr>addr = 0x20, cmd = 0x04, dat = 0x00FE, pin = 0, port = 0\<rparr> =
     \<lparr>addr = 0x20, cmd = 0x04, dat = 0x00FE, pin = 7, port = 0xF\<rparr> \<and>
   Python_parser \<lparr>peripheral_cases = [0x01, 0x02], GPIO_REGISTER = 0x20, CHECK_BUILD = 0xFE, RESET_ADDRESS = 0xFF\<rparr>
     \<lparr>addr = 0x20, cmd = 0x04, dat = 0x00FE, pin = 0, port = 0\<rparr> \<noteq>
     \<lparr>addr = 0x20, cmd = 0x04, dat = 0x00FE, pin = 0, port = 0\<rparr>"
  by (simp add: Python_parser_def Let_def to_uint8_def promote_def)

text \<open>
  Claim C5, amended. A frame whose address matches no case of the dispatch (no
  compiled-in peripheral, not \<open>GPIO_REGISTER\<close>, neither reserved address) is
  returned as it was, and so is every frame whose address is not
  \<open>GPIO_REGISTER\<close>, whatever its command; no error exists. With an unsupported
  command (neither 0x01 nor 0x03) address, command and data payload keep their
  prior values at every address; at \<open>GPIO_REGISTER\<close> the fields \<open>pin\<close> and \<open>port\<close>
  are still overwritten with the values derived from the data, and nothing else
  changes.
\<close>

theorem parser_silent_ignore:
  "(addr v \<notin> set (case_labels b) \<longrightarrow> Python_parser b v = v) \<and>
   (addr v \<noteq> GPIO_REGISTER b \<longrightarrow> Python_parser b v = v) \<and>
   (cmd v \<noteq> 0x01 \<and> cmd v \<noteq> 0x03 \<longrightarrow>
      addr (Python_parser b v) = addr v \<and> cmd (Python_parser b v) = cmd v \<and>
      dat (Python_parser b v) = dat v) \<and>
   (distinct (case_labels b) \<and> addr v = GPIO_REGISTER b \<and> cmd v \<noteq> 0x01 \<and> cmd v \<noteq> 0x03 \<longrightarrow>
      Python_parser b v =
        v\<lparr>pin := ucast (drop_bit 1 (dat v) AND 0x7), port := ucast (drop_bit 4 (dat v) AND 0xF)\<rparr>)"
proof (intro conjI impI)
  assume "addr v \<notin> set (case_labels b)"
  then have "addr v \<noteq> GPIO_REGISTER b"
    by (auto simp add: case_labels_def)
  then show "Python_parser b v = v"
    by (rule Python_parser_other_address)
next
  assume "addr v \<noteq> GPIO_REGISTER b"
  then show "Python_parser b v = v"
    by (rule Python_parser_other_address)
next
  assume "cmd v \<noteq> 0x01 \<and> cmd v \<noteq> 0x03"
  then show "addr (Python_parser b v) = addr v" "cmd (Python_parser b v) = cmd v"
    "dat (Python_parser b v) = dat v"
    by (simp_all add: Python_parser_addr_cmd Python_parser_dat)
next
  assume h: "distinct (case_labels b) \<and> addr v = GPIO_REGISTER b \<and> cmd v \<noteq> 0x01 \<and> cmd v \<noteq> 0x03"
  then have "Python_parser b v =
    v\<lparr>pin := ucast (drop_bit 1 (dat v) AND 0x7), port := ucast (drop_bit 4 (dat v) AND 0xF),
      dat := (if cmd v = 0x01 then dat v AND 0x0001
              else if cmd v = 0x03 then drop_bit 8 (dat v) AND 0xF else dat v)\<rparr>"
    using Python_parser_GPIO [of b v] by blast
  with h show "Python_parser b v =
        v\<lparr>pin := ucast (drop_bit 1 (dat v) AND 0x7), port := ucast (drop_bit 4 (dat v) AND 0xF)\<rparr>"
    by simp
qed

theorem parser_silent_ignore_witness:
  "0x55 \<notin> set (case_labels \<lparr>peripheral_cases = [0x01, 0x02], GPIO_REGISTER = 0x20, CHECK_BUILD = 0xFE, RESET_ADDRESS = 0xFF\<rparr>) \<and>
   (0x55 :: uint8) \<noteq> 0x20 \<and> (0x07 :: uint8) \<noteq> 0x01 \<and> (0x07 :: uint8) \<noteq> 0x03 \<and>
   Python_parser \<lparr>peripheral_cases = [0x01, 0x02], GPIO_REGISTER = 0x20, CHECK_BUILD = 0xFE, RESET_ADDRESS = 0xFF\<rparr>
     \<lparr>addr = 0x55, cmd = 0x07, dat = 0x1234, pin = 5, port = 6\<rparr> =
     \<lparr>addr = 0x55, cmd = 0x07, dat = 0x1234, pin = 5, port = 6\<rparr> \<and>
   distinct (case_labels \<lparr>peripheral_cases = [0x01, 0x02], GPIO_REGISTER = 0x20, CHECK_BUILD = 0xFE, RESET_ADDRESS = 0xFF\<rparr>) \<and>
   Python_parser \<lparr>peripheral_cases = [0x01, 0x02], GPIO_REGISTER = 0x20, CHECK_BUILD = 0xFE, RESET_ADDRESS = 0xFF\<rparr>
     \<lparr>addr = 0x20, cmd = 0x07, dat = 0x1234, pin = 5, port = 6\<rparr> =
     \<lparr>addr = 0x20, cmd = 0x07, dat = 0x1234, pin = 2, port = 3\<rparr>"
proof -
  have unknown: "0x55 \<notin> set (case_labels \<lparr>peripheral_cases = [0x01, 0x02], GPIO_REGISTER = 0x20, CHECK_BUILD = 0xFE, RESET_ADDRESS = 0xFF\<rparr>)"
    and labels: "distinct (case_labels \<lparr>peripheral_cases = [0x01, 0x02], GPIO_REGISTER = 0x20, CHECK_BUILD = 0xFE, RESET_ADDRESS = 0xFF\<rparr>)"
    by (simp_all add: case_labels_def)
  show ?thesis
    using unknown labels
      parser_silent_ignore [where
        b = "\<lparr>peripheral_cases = [0x01, 0x02], GPIO_REGISTER = 0x20, CHECK_BUILD = 0xFE, RESET_ADDRESS = 0xFF\<rparr>"
        and v = "\<lparr>addr = 0x55, cmd = 0x07, dat = 0x1234, pin = 5, port = 6\<rparr>"]
      parser_silent_ignore [where
        b = "\<lparr>peripheral_cases = [0x01, 0x02], GPIO_REGISTER = 0x20, CHECK_BUILD = 0xFE, RESET_ADDRESS = 0xFF\<rparr>"
        and v = "\<lparr>addr = 0x20, cmd = 0x07, dat = 0x1234, pin = 5, port = 6\<rparr>"]
    by simp
qed

text \<open>
  Claim C10. For every frame, \<open>Python_parser\<close> leaves the address and the
  command unchanged; and for every address other than \<open>GPIO_REGISTER\<close>, the
  addresses of the compiled-in peripherals and the two reserved addresses
  included, it leaves the whole frame unchanged: data, \<open>pin\<close> and \<open>port\<close> too.
\<close>

theorem parser_frame_effect:
  "addr (Python_parser b v) = addr v \<and> cmd (Python_parser b v) = cmd v \<and>
   (addr v \<noteq> GPIO_REGISTER b \<longrightarrow> Python_parser b v = v)"
  using Python_parser_addr_cmd [of b v] Python_parser_other_address [of v b] by blast

theorem parser_frame_effect_witness:
  "(0xFE :: uint8) \<noteq> 0x20 \<and>
   Python_parser \<lparr>peripheral_cases = [0x01, 0x02], GPIO_REGISTER = 0x20, CHECK_BUILD = 0xFE, RESET_ADDRESS = 0xFF\<rparr>
     \<lparr>addr = 0xFE, cmd = 0x01, dat = 0xBEEF, pin = 3, port = 9\<rparr> =
     \<lparr>addr = 0xFE, cmd = 0x01, dat = 0xBEEF, pin = 3, port = 9\<rparr>"
  using parser_frame_effect [where
      b = "\<lparr>peripheral_cases = [0x01, 0x02], GPIO_REGISTER = 0x20, CHECK_BUILD = 0xFE, RESET_ADDRESS = 0xFF\<rparr>"
      and v = "\<lparr>addr = 0xFE, cmd = 0x01, dat = 0xBEEF, pin = 3, port = 9\<rparr>"]
  by simp

end
